theory Spec2Isabelle
  imports Complex_Main
begin

section \<open>The Rectangle class of \<^verbatim>\<open>rectangle.py\<close>\<close>

text \<open>
  The class describes a rectangle by its centre, the distance from the centre to a vertex
  and the orientation of its two diagonals; the four vertices and the area are derived
  attributes, kept in the object and updated by the five \<^verbatim>\<open>change_*\<close> methods.

  The class is given twice. The first reading takes Python's \<^verbatim>\<open>float\<close> as
  \<^typ>\<open>real\<close> and \<^verbatim>\<open>math.cos\<close>, \<^verbatim>\<open>math.sin\<close>, \<^verbatim>\<open>math.sqrt\<close> as the real
  functions \<^term>\<open>cos\<close>, \<^term>\<open>sin\<close>, \<^term>\<open>sqrt\<close>: it has no rounding, no overflow, no
  infinity and no NaN. It carries the statements that do not depend on how a number is
  rounded: which attributes a method assigns, from which expression, and what is
  compared with what. The second reading, further down, is over double-precision floats
  and carries every statement that does depend on it.
\<close>

section \<open>The class over exact arithmetic\<close>

subsection \<open>Data\<close>

text \<open>The ten attributes of an instance, a point being a pair \<^verbatim>\<open>(x, y)\<close>.\<close>

record Rectangle =
  x_center :: real
  y_center :: real
  radius :: real
  alpha_angle :: real
  beta_angle :: real
  p1 :: "real \<times> real"
  p2 :: "real \<times> real"
  p3 :: "real \<times> real"
  p4 :: "real \<times> real"
  area :: real

subsection \<open>Helper methods\<close>

text \<open>\<^verbatim>\<open>vertex_calculation(self, angle)\<close> reads the radius and the centre of the object.\<close>

definition vertex_calculation :: "Rectangle \<Rightarrow> real \<Rightarrow> real \<times> real" where
  "vertex_calculation self angle =
     (radius self * cos angle + x_center self,
      radius self * sin angle + y_center self)"

text \<open>\<^verbatim>\<open>opposite_vertex(self, vertex)\<close> reads the centre of the object.\<close>

definition opposite_vertex :: "Rectangle \<Rightarrow> real \<times> real \<Rightarrow> real \<times> real" where
  "opposite_vertex self vertex =
     (2 * x_center self - fst vertex,
      2 * y_center self - snd vertex)"

text \<open>\<^verbatim>\<open>distance_calculation(self, point_a, point_b)\<close> does not read the object, so the
  model takes the two points only.\<close>

definition distance_calculation :: "real \<times> real \<Rightarrow> real \<times> real \<Rightarrow> real" where
  "distance_calculation point_a point_b =
     sqrt ((fst point_a - fst point_b)\<^sup>2 + (snd point_a - snd point_b)\<^sup>2)"

definition area_calculation :: "Rectangle \<Rightarrow> real" where
  "area_calculation self =
     distance_calculation (p1 self) (p2 self) * distance_calculation (p2 self) (p3 self)"

subsection \<open>Construction\<close>

text \<open>
  \<^verbatim>\<open>__init__\<close> assigns the attributes one after the other, each helper reading the
  attributes assigned before it. A record has all its fields from the start, so the
  derived fields begin at a placeholder that no helper reads before the assignment
  replaces it.
\<close>

definition Rectangle_init :: "real \<Rightarrow> real \<Rightarrow> real \<Rightarrow> real \<Rightarrow> real \<Rightarrow> Rectangle" where
  "Rectangle_init x_center' y_center' radius' alpha_angle' beta_angle' =
     (let self = \<lparr> x_center = x_center',
                   y_center = y_center',
                   radius = \<bar>radius'\<bar>,
                   alpha_angle = alpha_angle',
                   beta_angle = beta_angle',
                   p1 = (0, 0), p2 = (0, 0), p3 = (0, 0), p4 = (0, 0), area = 0 \<rparr>;
          self = self\<lparr>p1 := vertex_calculation self (alpha_angle self)\<rparr>;
          self = self\<lparr>p2 := vertex_calculation self (beta_angle self)\<rparr>;
          self = self\<lparr>p3 := opposite_vertex self (p1 self)\<rparr>;
          self = self\<lparr>p4 := opposite_vertex self (p2 self)\<rparr>;
          self = self\<lparr>area := area_calculation self\<rparr>
      in self)"

subsection \<open>The five mutators\<close>

text \<open>Each method mutates the object in place; the model returns the updated object.
  \<^verbatim>\<open>change_x_center\<close> and \<^verbatim>\<open>change_y_center\<close> assign the centre and the four
  vertices and nothing else: they do not call \<^verbatim>\<open>area_calculation\<close>.\<close>

definition change_x_center :: "Rectangle \<Rightarrow> real \<Rightarrow> Rectangle" where
  "change_x_center self new_x_center =
     (let delta = new_x_center - x_center self;
          self = self\<lparr>x_center := new_x_center\<rparr>;
          self = self\<lparr>p1 := (fst (p1 self) + delta, snd (p1 self))\<rparr>;
          self = self\<lparr>p2 := (fst (p2 self) + delta, snd (p2 self))\<rparr>;
          self = self\<lparr>p3 := (fst (p3 self) + delta, snd (p3 self))\<rparr>;
          self = self\<lparr>p4 := (fst (p4 self) + delta, snd (p4 self))\<rparr>
      in self)"

definition change_y_center :: "Rectangle \<Rightarrow> real \<Rightarrow> Rectangle" where
  "change_y_center self new_y_center =
     (let delta = new_y_center - y_center self;
          self = self\<lparr>y_center := new_y_center\<rparr>;
          self = self\<lparr>p1 := (fst (p1 self), snd (p1 self) + delta)\<rparr>;
          self = self\<lparr>p2 := (fst (p2 self), snd (p2 self) + delta)\<rparr>;
          self = self\<lparr>p3 := (fst (p3 self), snd (p3 self) + delta)\<rparr>;
          self = self\<lparr>p4 := (fst (p4 self), snd (p4 self) + delta)\<rparr>
      in self)"

definition change_radius :: "Rectangle \<Rightarrow> real \<Rightarrow> Rectangle" where
  "change_radius self new_radius =
     (let self = self\<lparr>radius := \<bar>new_radius\<bar>\<rparr>;
          self = self\<lparr>p1 := vertex_calculation self (alpha_angle self)\<rparr>;
          self = self\<lparr>p2 := vertex_calculation self (beta_angle self)\<rparr>;
          self = self\<lparr>p3 := opposite_vertex self (p1 self)\<rparr>;
          self = self\<lparr>p4 := opposite_vertex self (p2 self)\<rparr>;
          self = self\<lparr>area := area_calculation self\<rparr>
      in self)"

definition change_alpha_angle :: "Rectangle \<Rightarrow> real \<Rightarrow> Rectangle" where
  "change_alpha_angle self new_alpha_angle =
     (let self = self\<lparr>alpha_angle := new_alpha_angle\<rparr>;
          self = self\<lparr>p1 := vertex_calculation self (alpha_angle self)\<rparr>;
          self = self\<lparr>p3 := opposite_vertex self (p1 self)\<rparr>;
          self = self\<lparr>area := area_calculation self\<rparr>
      in self)"

definition change_beta_angle :: "Rectangle \<Rightarrow> real \<Rightarrow> Rectangle" where
  "change_beta_angle self new_beta_angle =
     (let self = self\<lparr>beta_angle := new_beta_angle\<rparr>;
          self = self\<lparr>p2 := vertex_calculation self (beta_angle self)\<rparr>;
          self = self\<lparr>p4 := opposite_vertex self (p2 self)\<rparr>;
          self = self\<lparr>area := area_calculation self\<rparr>
      in self)"

subsection \<open>Accessors and equality\<close>

definition get_center :: "Rectangle \<Rightarrow> real \<times> real" where
  "get_center self = (x_center self, y_center self)"

definition get_radius :: "Rectangle \<Rightarrow> real" where
  "get_radius self = radius self"

definition get_alpha_angle :: "Rectangle \<Rightarrow> real" where
  "get_alpha_angle self = alpha_angle self"

definition get_beta_angle :: "Rectangle \<Rightarrow> real" where
  "get_beta_angle self = beta_angle self"

text \<open>\<^verbatim>\<open>__eq__\<close>: Python's \<^verbatim>\<open>and\<close> binds tighter than \<^verbatim>\<open>or\<close>, and the two
  alternatives on the angles stand in parentheses of their own.\<close>

definition Rectangle_eq :: "Rectangle \<Rightarrow> Rectangle \<Rightarrow> bool" where
  "Rectangle_eq self other \<longleftrightarrow>
     get_center self = get_center other
     \<and> radius self = get_radius other
     \<and> ((alpha_angle self = get_alpha_angle other \<and> beta_angle self = get_beta_angle other)
        \<or> (alpha_angle self = get_beta_angle other \<and> beta_angle self = get_alpha_angle other))"

subsection \<open>Reachable objects\<close>




section \<open>The class over double-precision floats\<close>

text \<open>
  The second reading keeps the code's arithmetic: every attribute is an IEEE 754
  binary64 value and every operation rounds as the interpreter does.
\<close>

subsection \<open>Doubles\<close>

text \<open>
  A double is a finite number, an infinity or NaN; a finite double carries its value as a
  real number. The two zeros are one value: the class compares, adds and multiplies, and
  none of these tells them apart.
\<close>

datatype double = Finite real | PInf | NInf | NaN

text \<open>The two exceptions the methods of the class can raise.\<close>

datatype py_error = ValueError | OverflowError

text \<open>Rounding to the nearest integer, a tie going to the even one.\<close>

definition round_half_even :: "real \<Rightarrow> int" where
  "round_half_even y =
     (let f = \<lfloor>y\<rfloor>
      in if y - of_int f < 1 / 2 then f
         else if 1 / 2 < y - of_int f then f + 1
         else if even f then f else f + 1)"

text \<open>
  Rounding a real number to binary64. The spacing \<open>q\<close> of the doubles around \<open>x\<close> is
  \<open>2\<close> to the power \<open>e - 52\<close> where \<open>2 ^ e \<le> \<bar>x\<bar> < 2 ^ (e + 1)\<close>, and \<open>e\<close> is not
  taken below \<open>- 1022\<close> (subnormal numbers). A result of magnitude \<open>2 ^ 1024\<close> or more
  is an infinity.
\<close>

definition rnd :: "real \<Rightarrow> double" where
  "rnd x =
     (if x = 0 then Finite 0
      else let e = max \<lfloor>log 2 \<bar>x\<bar>\<rfloor> (- 1022);
               q = 2 powr of_int (e - 52);
               y = q * of_int (round_half_even (x / q))
           in if 2 ^ 1024 \<le> \<bar>y\<bar> then (if 0 < x then PInf else NInf) else Finite y)"

text \<open>Unary minus and \<^verbatim>\<open>abs\<close> are exact.\<close>

fun fneg :: "double \<Rightarrow> double" where
  "fneg (Finite a) = Finite (- a)"
| "fneg PInf = NInf"
| "fneg NInf = PInf"
| "fneg NaN = NaN"

fun fabs :: "double \<Rightarrow> double" where
  "fabs (Finite a) = Finite \<bar>a\<bar>"
| "fabs PInf = PInf"
| "fabs NInf = PInf"
| "fabs NaN = NaN"

text \<open>\<^verbatim>\<open>a + b\<close>, \<^verbatim>\<open>a - b\<close> and \<^verbatim>\<open>a * b\<close> never raise: they overflow to an infinity
  and give NaN where the result is undefined.\<close>

fun fadd :: "double \<Rightarrow> double \<Rightarrow> double" where
  "fadd (Finite a) (Finite b) = rnd (a + b)"
| "fadd NaN b = NaN"
| "fadd a NaN = NaN"
| "fadd PInf NInf = NaN"
| "fadd NInf PInf = NaN"
| "fadd PInf b = PInf"
| "fadd NInf b = NInf"
| "fadd a PInf = PInf"
| "fadd a NInf = NInf"

definition fsub :: "double \<Rightarrow> double \<Rightarrow> double" where
  "fsub a b = fadd a (fneg b)"

fun fmul :: "double \<Rightarrow> double \<Rightarrow> double" where
  "fmul (Finite a) (Finite b) = rnd (a * b)"
| "fmul NaN b = NaN"
| "fmul a NaN = NaN"
| "fmul (Finite a) PInf = (if a = 0 then NaN else if 0 < a then PInf else NInf)"
| "fmul (Finite a) NInf = (if a = 0 then NaN else if 0 < a then NInf else PInf)"
| "fmul PInf (Finite b) = (if b = 0 then NaN else if 0 < b then PInf else NInf)"
| "fmul NInf (Finite b) = (if b = 0 then NaN else if 0 < b then NInf else PInf)"
| "fmul PInf PInf = PInf"
| "fmul NInf NInf = PInf"
| "fmul PInf NInf = NInf"
| "fmul NInf PInf = NInf"

text \<open>\<^verbatim>\<open>a == b\<close> on floats: NaN equals nothing, itself included.\<close>

fun feq :: "double \<Rightarrow> double \<Rightarrow> bool" where
  "feq NaN b = False"
| "feq a NaN = False"
| "feq a b = (a = b)"

text \<open>
  \<^verbatim>\<open>math.cos\<close> and \<^verbatim>\<open>math.sin\<close> raise ValueError at an infinity and return NaN
  at NaN. At a finite argument they call the C library, whose result is taken to be the
  correctly rounded one. \<^verbatim>\<open>math.sqrt\<close> raises ValueError at a negative argument and is
  correctly rounded by the standard.
\<close>

fun math_cos :: "double \<Rightarrow> py_error + double" where
  "math_cos (Finite a) = Inr (rnd (cos a))"
| "math_cos NaN = Inr NaN"
| "math_cos PInf = Inl ValueError"
| "math_cos NInf = Inl ValueError"

fun math_sin :: "double \<Rightarrow> py_error + double" where
  "math_sin (Finite a) = Inr (rnd (sin a))"
| "math_sin NaN = Inr NaN"
| "math_sin PInf = Inl ValueError"
| "math_sin NInf = Inl ValueError"

fun math_sqrt :: "double \<Rightarrow> py_error + double" where
  "math_sqrt (Finite a) = (if a < 0 then Inl ValueError else Inr (rnd (sqrt a)))"
| "math_sqrt NaN = Inr NaN"
| "math_sqrt PInf = Inr PInf"
| "math_sqrt NInf = Inl ValueError"

text \<open>\<^verbatim>\<open>pow(a, 2)\<close> on a float: the square, rounded; OverflowError where the square of
  a finite number is too large for a double.\<close>

fun float_pow2 :: "double \<Rightarrow> py_error + double" where
  "float_pow2 (Finite a) =
     (case rnd (a * a) of Finite y \<Rightarrow> Inr (Finite y) | _ \<Rightarrow> Inl OverflowError)"
| "float_pow2 NaN = Inr NaN"
| "float_pow2 PInf = Inr PInf"
| "float_pow2 NInf = Inr PInf"

text \<open>A statement that raises ends the method: what follows it is not run.\<close>

definition bind_result :: "py_error + 'a \<Rightarrow> ('a \<Rightarrow> py_error + 'b) \<Rightarrow> py_error + 'b" where
  "bind_result m f = (case m of Inl e \<Rightarrow> Inl e | Inr v \<Rightarrow> f v)"

subsection \<open>The object and its methods\<close>

record Rectangle_fl =
  x_center_fl :: double
  y_center_fl :: double
  radius_fl :: double
  alpha_angle_fl :: double
  beta_angle_fl :: double
  p1_fl :: "double \<times> double"
  p2_fl :: "double \<times> double"
  p3_fl :: "double \<times> double"
  p4_fl :: "double \<times> double"
  area_fl :: double

text \<open>The first component of the tuple is evaluated before the second, so
  \<^verbatim>\<open>math.cos\<close> is called before \<^verbatim>\<open>math.sin\<close>.\<close>

definition vertex_calculation_fl ::
  "Rectangle_fl \<Rightarrow> double \<Rightarrow> py_error + double \<times> double" where
  "vertex_calculation_fl self angle =
     bind_result (math_cos angle) (\<lambda>c.
     bind_result (math_sin angle) (\<lambda>s.
       Inr (fadd (fmul (radius_fl self) c) (x_center_fl self),
            fadd (fmul (radius_fl self) s) (y_center_fl self))))"

text \<open>The integer \<^verbatim>\<open>2\<close> is converted to the float \<^verbatim>\<open>2.0\<close> before the product.\<close>

definition opposite_vertex_fl :: "Rectangle_fl \<Rightarrow> double \<times> double \<Rightarrow> double \<times> double" where
  "opposite_vertex_fl self vertex =
     (fsub (fmul (Finite 2) (x_center_fl self)) (fst vertex),
      fsub (fmul (Finite 2) (y_center_fl self)) (snd vertex))"

definition distance_calculation_fl ::
  "double \<times> double \<Rightarrow> double \<times> double \<Rightarrow> py_error + double" where
  "distance_calculation_fl point_a point_b =
     bind_result (float_pow2 (fsub (fst point_a) (fst point_b))) (\<lambda>dx.
     bind_result (float_pow2 (fsub (snd point_a) (snd point_b))) (\<lambda>dy.
       math_sqrt (fadd dx dy)))"

definition area_calculation_fl :: "Rectangle_fl \<Rightarrow> py_error + double" where
  "area_calculation_fl self =
     bind_result (distance_calculation_fl (p1_fl self) (p2_fl self)) (\<lambda>d12.
     bind_result (distance_calculation_fl (p2_fl self) (p3_fl self)) (\<lambda>d23.
       Inr (fmul d12 d23)))"

text \<open>
  A method that raises leaves the object partly assigned. The model returns the error
  alone, so the statements about objects are about calls that return.
\<close>

definition Rectangle_init_fl ::
  "double \<Rightarrow> double \<Rightarrow> double \<Rightarrow> double \<Rightarrow> double \<Rightarrow> py_error + Rectangle_fl" where
  "Rectangle_init_fl x_center' y_center' radius' alpha_angle' beta_angle' =
     (let self = \<lparr> x_center_fl = x_center',
                   y_center_fl = y_center',
                   radius_fl = fabs radius',
                   alpha_angle_fl = alpha_angle',
                   beta_angle_fl = beta_angle',
                   p1_fl = (Finite 0, Finite 0), p2_fl = (Finite 0, Finite 0),
                   p3_fl = (Finite 0, Finite 0), p4_fl = (Finite 0, Finite 0),
                   area_fl = Finite 0 \<rparr>
      in bind_result (vertex_calculation_fl self (alpha_angle_fl self)) (\<lambda>v1.
         let self = self\<lparr>p1_fl := v1\<rparr>
         in bind_result (vertex_calculation_fl self (beta_angle_fl self)) (\<lambda>v2.
            let self = self\<lparr>p2_fl := v2\<rparr>;
                self = self\<lparr>p3_fl := opposite_vertex_fl self (p1_fl self)\<rparr>;
                self = self\<lparr>p4_fl := opposite_vertex_fl self (p2_fl self)\<rparr>
            in bind_result (area_calculation_fl self) (\<lambda>a.
               Inr (self\<lparr>area_fl := a\<rparr>)))))"

definition change_x_center_fl :: "Rectangle_fl \<Rightarrow> double \<Rightarrow> Rectangle_fl" where
  "change_x_center_fl self new_x_center =
     (let delta = fsub new_x_center (x_center_fl self);
          self = self\<lparr>x_center_fl := new_x_center\<rparr>;
          self = self\<lparr>p1_fl := (fadd (fst (p1_fl self)) delta, snd (p1_fl self))\<rparr>;
          self = self\<lparr>p2_fl := (fadd (fst (p2_fl self)) delta, snd (p2_fl self))\<rparr>;
          self = self\<lparr>p3_fl := (fadd (fst (p3_fl self)) delta, snd (p3_fl self))\<rparr>;
          self = self\<lparr>p4_fl := (fadd (fst (p4_fl self)) delta, snd (p4_fl self))\<rparr>
      in self)"

definition change_y_center_fl :: "Rectangle_fl \<Rightarrow> double \<Rightarrow> Rectangle_fl" where
  "change_y_center_fl self new_y_center =
     (let delta = fsub new_y_center (y_center_fl self);
          self = self\<lparr>y_center_fl := new_y_center\<rparr>;
          self = self\<lparr>p1_fl := (fst (p1_fl self), fadd (snd (p1_fl self)) delta)\<rparr>;
          self = self\<lparr>p2_fl := (fst (p2_fl self), fadd (snd (p2_fl self)) delta)\<rparr>;
          self = self\<lparr>p3_fl := (fst (p3_fl self), fadd (snd (p3_fl self)) delta)\<rparr>;
          self = self\<lparr>p4_fl := (fst (p4_fl self), fadd (snd (p4_fl self)) delta)\<rparr>
      in self)"

definition change_radius_fl :: "Rectangle_fl \<Rightarrow> double \<Rightarrow> py_error + Rectangle_fl" where
  "change_radius_fl self new_radius =
     (let self = self\<lparr>radius_fl := fabs new_radius\<rparr>
      in bind_result (vertex_calculation_fl self (alpha_angle_fl self)) (\<lambda>v1.
         let self = self\<lparr>p1_fl := v1\<rparr>
         in bind_result (vertex_calculation_fl self (beta_angle_fl self)) (\<lambda>v2.
            let self = self\<lparr>p2_fl := v2\<rparr>;
                self = self\<lparr>p3_fl := opposite_vertex_fl self (p1_fl self)\<rparr>;
                self = self\<lparr>p4_fl := opposite_vertex_fl self (p2_fl self)\<rparr>
            in bind_result (area_calculation_fl self) (\<lambda>a.
               Inr (self\<lparr>area_fl := a\<rparr>)))))"

definition change_alpha_angle_fl :: "Rectangle_fl \<Rightarrow> double \<Rightarrow> py_error + Rectangle_fl" where
  "change_alpha_angle_fl self new_alpha_angle =
     (let self = self\<lparr>alpha_angle_fl := new_alpha_angle\<rparr>
      in bind_result (vertex_calculation_fl self (alpha_angle_fl self)) (\<lambda>v1.
         let self = self\<lparr>p1_fl := v1\<rparr>;
             self = self\<lparr>p3_fl := opposite_vertex_fl self (p1_fl self)\<rparr>
         in bind_result (area_calculation_fl self) (\<lambda>a.
            Inr (self\<lparr>area_fl := a\<rparr>))))"

definition change_beta_angle_fl :: "Rectangle_fl \<Rightarrow> double \<Rightarrow> py_error + Rectangle_fl" where
  "change_beta_angle_fl self new_beta_angle =
     (let self = self\<lparr>beta_angle_fl := new_beta_angle\<rparr>
      in bind_result (vertex_calculation_fl self (beta_angle_fl self)) (\<lambda>v2.
         let self = self\<lparr>p2_fl := v2\<rparr>;
             self = self\<lparr>p4_fl := opposite_vertex_fl self (p2_fl self)\<rparr>
         in bind_result (area_calculation_fl self) (\<lambda>a.
            Inr (self\<lparr>area_fl := a\<rparr>))))"

text \<open>
  \<^verbatim>\<open>__eq__\<close> compares the centres as tuples, that is coordinate by coordinate, and
  the radius and the angles as floats. The interpreter takes two tuple items that are
  the same object for equal without comparing them; the model compares values, so it
  differs from the interpreter only where a centre coordinate is NaN.
\<close>

definition Rectangle_eq_fl :: "Rectangle_fl \<Rightarrow> Rectangle_fl \<Rightarrow> bool" where
  "Rectangle_eq_fl self other \<longleftrightarrow>
     (feq (x_center_fl self) (x_center_fl other) \<and> feq (y_center_fl self) (y_center_fl other))
     \<and> feq (radius_fl self) (radius_fl other)
     \<and> ((feq (alpha_angle_fl self) (alpha_angle_fl other)
          \<and> feq (beta_angle_fl self) (beta_angle_fl other))
        \<or> (feq (alpha_angle_fl self) (beta_angle_fl other)
          \<and> feq (beta_angle_fl self) (alpha_angle_fl other)))"

subsection \<open>Reachable objects\<close>

text \<open>
  A sequence of mutator calls stops at the first one that raises. \<open>recomputes\<close> tells
  the three mutators that end with \<^verbatim>\<open>area_calculation\<close> from the two translations.
\<close>

datatype mutation_fl =
    Change_x_center_fl double
  | Change_y_center_fl double
  | Change_radius_fl double
  | Change_alpha_angle_fl double
  | Change_beta_angle_fl double

primrec apply_mutation_fl :: "mutation_fl \<Rightarrow> Rectangle_fl \<Rightarrow> py_error + Rectangle_fl" where
  "apply_mutation_fl (Change_x_center_fl v) self = Inr (change_x_center_fl self v)"
| "apply_mutation_fl (Change_y_center_fl v) self = Inr (change_y_center_fl self v)"
| "apply_mutation_fl (Change_radius_fl v) self = change_radius_fl self v"
| "apply_mutation_fl (Change_alpha_angle_fl v) self = change_alpha_angle_fl self v"
| "apply_mutation_fl (Change_beta_angle_fl v) self = change_beta_angle_fl self v"

primrec run_fl :: "mutation_fl list \<Rightarrow> Rectangle_fl \<Rightarrow> py_error + Rectangle_fl" where
  "run_fl [] self = Inr self"
| "run_fl (m # ms) self = bind_result (apply_mutation_fl m self) (run_fl ms)"

primrec recomputes :: "mutation_fl \<Rightarrow> bool" where
  "recomputes (Change_x_center_fl v) = False"
| "recomputes (Change_y_center_fl v) = False"
| "recomputes (Change_radius_fl v) = True"
| "recomputes (Change_alpha_angle_fl v) = True"
| "recomputes (Change_beta_angle_fl v) = True"

text \<open>An object is consistent when each derived attribute is what the helper methods
  compute from the attributes it depends on.\<close>

definition consistent :: "Rectangle_fl \<Rightarrow> bool" where
  "consistent s \<longleftrightarrow>
     radius_fl s = fabs (radius_fl s)
     \<and> vertex_calculation_fl s (alpha_angle_fl s) = Inr (p1_fl s)
     \<and> vertex_calculation_fl s (beta_angle_fl s) = Inr (p2_fl s)
     \<and> p3_fl s = opposite_vertex_fl s (p1_fl s)
     \<and> p4_fl s = opposite_vertex_fl s (p2_fl s)
     \<and> area_calculation_fl s = Inr (area_fl s)"

subsection \<open>Example objects\<close>

text \<open>The objects that the evaluations below start from or arrive at;
  \<open>9007199254740992\<close> is \<open>2 ^ 53\<close>, from where on the doubles are the even integers.\<close>

definition unit_at_origin :: Rectangle_fl where
  "unit_at_origin =
     \<lparr> x_center_fl = Finite 0, y_center_fl = Finite 0, radius_fl = Finite 1,
       alpha_angle_fl = Finite 0, beta_angle_fl = Finite 0,
       p1_fl = (Finite 1, Finite 0), p2_fl = (Finite 1, Finite 0),
       p3_fl = (Finite (- 1), Finite 0), p4_fl = (Finite (- 1), Finite 0),
       area_fl = Finite 0 \<rparr>"

definition unit_far_away :: Rectangle_fl where
  "unit_far_away =
     \<lparr> x_center_fl = Finite 9007199254740992, y_center_fl = Finite 0, radius_fl = Finite 1,
       alpha_angle_fl = Finite 0, beta_angle_fl = Finite 0,
       p1_fl = (Finite 9007199254740992, Finite 0), p2_fl = (Finite 9007199254740992, Finite 0),
       p3_fl = (Finite 9007199254740992, Finite 0), p4_fl = (Finite 9007199254740992, Finite 0),
       area_fl = Finite 0 \<rparr>"

definition unit_moved :: Rectangle_fl where
  "unit_moved =
     \<lparr> x_center_fl = Finite 9007199254740992, y_center_fl = Finite 0, radius_fl = Finite 1,
       alpha_angle_fl = Finite 0, beta_angle_fl = Finite 0,
       p1_fl = (Finite 9007199254740992, Finite 0), p2_fl = (Finite 9007199254740992, Finite 0),
       p3_fl = (Finite 9007199254740991, Finite 0), p4_fl = (Finite 9007199254740991, Finite 0),
       area_fl = Finite 0 \<rparr>"

definition stale_area :: Rectangle_fl where
  "stale_area =
     \<lparr> x_center_fl = Finite 9007199254740992, y_center_fl = Finite 0, radius_fl = Finite 1,
       alpha_angle_fl = Finite 0, beta_angle_fl = Finite 0,
       p1_fl = (Finite 9007199254740992, Finite 0), p2_fl = (Finite 9007199254740992, Finite 0),
       p3_fl = (Finite 9007199254740991, Finite 0), p4_fl = (Finite 9007199254740992, Finite 0),
       area_fl = Finite 1 \<rparr>"

definition big_far_away :: Rectangle_fl where
  "big_far_away =
     \<lparr> x_center_fl = Finite 9007199254740992, y_center_fl = Finite 0,
       radius_fl = Finite 9007199254740992,
       alpha_angle_fl = Finite 0, beta_angle_fl = Finite 0,
       p1_fl = (Finite 18014398509481984, Finite 0), p2_fl = (Finite 18014398509481984, Finite 0),
       p3_fl = (Finite 0, Finite 0), p4_fl = (Finite 0, Finite 0),
       area_fl = Finite 0 \<rparr>"

definition nan_alpha :: Rectangle_fl where
  "nan_alpha =
     \<lparr> x_center_fl = Finite 0, y_center_fl = Finite 0, radius_fl = Finite 1,
       alpha_angle_fl = NaN, beta_angle_fl = Finite 0,
       p1_fl = (NaN, NaN), p2_fl = (Finite 1, Finite 0),
       p3_fl = (NaN, NaN), p4_fl = (Finite (- 1), Finite 0),
       area_fl = NaN \<rparr>"

section \<open>Properties over exact arithmetic\<close>

subsection \<open>Auxiliary facts\<close>

lemmas Rectangle_defs =
  Rectangle_init_def change_x_center_def change_y_center_def change_radius_def
  change_alpha_angle_def change_beta_angle_def vertex_calculation_def opposite_vertex_def
  area_calculation_def


text \<open>The ten attributes of a freshly constructed object, in closed form.\<close>

lemma init_fields:
  "x_center (Rectangle_init xc yc r a b) = xc"
  "y_center (Rectangle_init xc yc r a b) = yc"
  "radius (Rectangle_init xc yc r a b) = \<bar>r\<bar>"
  "alpha_angle (Rectangle_init xc yc r a b) = a"
  "beta_angle (Rectangle_init xc yc r a b) = b"
  "p1 (Rectangle_init xc yc r a b) = (\<bar>r\<bar> * cos a + xc, \<bar>r\<bar> * sin a + yc)"
  "p2 (Rectangle_init xc yc r a b) = (\<bar>r\<bar> * cos b + xc, \<bar>r\<bar> * sin b + yc)"
  "p3 (Rectangle_init xc yc r a b) = (2 * xc - (\<bar>r\<bar> * cos a + xc), 2 * yc - (\<bar>r\<bar> * sin a + yc))"
  "p4 (Rectangle_init xc yc r a b) = (2 * xc - (\<bar>r\<bar> * cos b + xc), 2 * yc - (\<bar>r\<bar> * sin b + yc))"
  "area (Rectangle_init xc yc r a b) =
     distance_calculation (\<bar>r\<bar> * cos a + xc, \<bar>r\<bar> * sin a + yc) (\<bar>r\<bar> * cos b + xc, \<bar>r\<bar> * sin b + yc)
     * distance_calculation (\<bar>r\<bar> * cos b + xc, \<bar>r\<bar> * sin b + yc)
         (2 * xc - (\<bar>r\<bar> * cos a + xc), 2 * yc - (\<bar>r\<bar> * sin a + yc))"
  by (simp_all add: Rectangle_defs Let_def)









subsection \<open>Construction and mutators\<close>

text \<open>
  Claim C6. Constructing with radius \<open>- r\<close> gives the same object as constructing with
  \<open>r\<close> (so the same vertices and area), its radius accessor returning \<open>\<bar>r\<bar>\<close>; and
  \<open>change_radius\<close> stores the absolute value of its argument.
\<close>

theorem negative_radius_normalised:
  "Rectangle_init xc yc (- r) a b = Rectangle_init xc yc r a b
   \<and> get_radius (Rectangle_init xc yc r a b) = \<bar>r\<bar>
   \<and> get_radius (Rectangle_init xc yc (- r) a b) = \<bar>r\<bar>
   \<and> radius (change_radius s v) = \<bar>v\<bar>
   \<and> change_radius s (- v) = change_radius s v"
  by (simp add: Rectangle_init_def change_radius_def get_radius_def Let_def)

text \<open>
  Claim C8. \<open>change_alpha_angle\<close> leaves \<open>p2\<close>, \<open>p4\<close>, the centre, the radius and
  \<open>beta_angle\<close> unchanged, sets \<open>p1\<close> to the vertex at the new angle and \<open>p3\<close> to the
  reflection of that vertex through the centre, and stores the area computed from the
  new vertices. \<open>change_beta_angle\<close> does the same with the roles of the diagonals
  exchanged: \<open>p1\<close> and \<open>p3\<close> stay, \<open>p2\<close> and \<open>p4\<close> are recomputed.
\<close>

theorem angle_change_frame:
  "let s' = change_alpha_angle s v;
       t' = change_beta_angle s v
   in p2 s' = p2 s \<and> p4 s' = p4 s
    \<and> x_center s' = x_center s \<and> y_center s' = y_center s
    \<and> radius s' = radius s \<and> beta_angle s' = beta_angle s
    \<and> alpha_angle s' = v
    \<and> p1 s' = (radius s * cos v + x_center s, radius s * sin v + y_center s)
    \<and> p3 s' = (2 * x_center s - fst (p1 s'), 2 * y_center s - snd (p1 s'))
    \<and> area s' = distance_calculation (p1 s') (p2 s') * distance_calculation (p2 s') (p3 s')
    \<and> p1 t' = p1 s \<and> p3 t' = p3 s
    \<and> x_center t' = x_center s \<and> y_center t' = y_center s
    \<and> radius t' = radius s \<and> alpha_angle t' = alpha_angle s
    \<and> beta_angle t' = v
    \<and> p2 t' = (radius s * cos v + x_center s, radius s * sin v + y_center s)
    \<and> p4 t' = (2 * x_center s - fst (p2 t'), 2 * y_center s - snd (p2 t'))
    \<and> area t' = distance_calculation (p1 t') (p2 t') * distance_calculation (p2 t') (p3 t')"
  by (simp add: change_alpha_angle_def change_beta_angle_def vertex_calculation_def
      opposite_vertex_def area_calculation_def Let_def)

subsection \<open>Equality\<close>

text \<open>
  Claim C7. \<open>a == b\<close> is true exactly when the centres agree in both coordinates, the
  radii agree, and the angles agree as an unordered pair. So a rectangle with the angles
  \<open>(0, pi/2)\<close> equals the one with \<open>(pi/2, 0)\<close>, and a rectangle never equals the one
  whose beta angle is larger or smaller by \<open>2 * pi\<close>.
\<close>

theorem eq_characterisation:
  "(Rectangle_eq s t \<longleftrightarrow>
      x_center s = x_center t \<and> y_center s = y_center t
      \<and> radius s = radius t
      \<and> {alpha_angle s, beta_angle s} = {alpha_angle t, beta_angle t})
   \<and> Rectangle_eq (Rectangle_init xc yc r 0 (pi / 2)) (Rectangle_init xc yc r (pi / 2) 0)
   \<and> \<not> Rectangle_eq (Rectangle_init xc yc r a b) (Rectangle_init xc yc r a (b + 2 * pi))
   \<and> \<not> Rectangle_eq (Rectangle_init xc yc r a (b + 2 * pi)) (Rectangle_init xc yc r a b)
   \<and> \<not> Rectangle_eq (Rectangle_init 0 0 5 0 (pi / 2)) (Rectangle_init 0 0 5 0 (pi / 2 + 2 * pi))"
  by (auto simp add: Rectangle_eq_def get_center_def get_radius_def get_alpha_angle_def
      get_beta_angle_def init_fields doubleton_eq_iff)

subsection \<open>Distance of the vertices from the centre\<close>


section \<open>Properties over double-precision floats\<close>

subsection \<open>Evaluating the rounding\<close>

text \<open>Once the binade of \<open>x\<close> is known, \<open>rnd x\<close> is a computation on numerals.\<close>

lemma rnd_binade:
  assumes "2 powr of_int e \<le> \<bar>x\<bar>" "\<bar>x\<bar> < 2 powr of_int (e + 1)"
  shows "rnd x =
     (let q = 2 powr of_int (max e (- 1022) - 52);
          y = q * of_int (round_half_even (x / q))
      in if 2 ^ 1024 \<le> \<bar>y\<bar> then (if 0 < x then PInf else NInf) else Finite y)"
proof -
  have pos: "0 < \<bar>x\<bar>" using assms(1) by (smt (verit) powr_gt_zero)
  then have "x \<noteq> 0" by auto
  moreover have "\<lfloor>log 2 \<bar>x\<bar>\<rfloor> = e"
    using assms pos by (simp add: floor_log_eq_powr_iff)
  ultimately show ?thesis by (simp add: rnd_def)
qed

lemmas rnd_simps = round_half_even_def Let_def powr_minus

lemma rnd_0 [simp]: "rnd 0 = Finite 0"
  by (simp add: rnd_def)

lemma rnd_1 [simp]: "rnd 1 = Finite 1"
  using rnd_binade [of 0 1] by (simp add: rnd_simps)

lemma rnd_minus_1 [simp]: "rnd (- 1) = Finite (- 1)"
  using rnd_binade [of 0 "- 1"] by (simp add: rnd_simps)

lemma rnd_2 [simp]: "rnd 2 = Finite 2"
  using rnd_binade [of 1 2] by (simp add: rnd_simps)

lemma rnd_4 [simp]: "rnd 4 = Finite 4"
  using rnd_binade [of 2 4] by (simp add: rnd_simps)

lemma rnd_2p53 [simp]: "rnd 9007199254740992 = Finite 9007199254740992"
  using rnd_binade [of 53 9007199254740992] by (simp add: rnd_simps)

lemma rnd_minus_2p53 [simp]: "rnd (- 9007199254740992) = Finite (- 9007199254740992)"
  using rnd_binade [of 53 "- 9007199254740992"] by (simp add: rnd_simps)

text \<open>\<open>2 ^ 53 + 1\<close> lies halfway between two doubles and goes to the even one.\<close>

lemma rnd_2p53_plus_1 [simp]: "rnd 9007199254740993 = Finite 9007199254740992"
  using rnd_binade [of 53 9007199254740993] by (simp add: rnd_simps)

lemma rnd_2p53_minus_1 [simp]: "rnd 9007199254740991 = Finite 9007199254740991"
  using rnd_binade [of 52 9007199254740991] by (simp add: rnd_simps)

lemma rnd_2p54 [simp]: "rnd 18014398509481984 = Finite 18014398509481984"
  using rnd_binade [of 54 18014398509481984] by (simp add: rnd_simps)

lemma rnd_2p108 [simp]:
  "rnd 324518553658426726783156020576256 = Finite 324518553658426726783156020576256"
  using rnd_binade [of 108 324518553658426726783156020576256] by (simp add: rnd_simps)

lemma sqrt_2p108 [simp]: "sqrt 324518553658426726783156020576256 = 18014398509481984"
  by (rule real_sqrt_unique) simp_all

lemmas fl_defs =
  Rectangle_init_fl_def change_x_center_fl_def change_y_center_fl_def change_radius_fl_def
  change_alpha_angle_fl_def change_beta_angle_fl_def vertex_calculation_fl_def
  opposite_vertex_fl_def area_calculation_fl_def distance_calculation_fl_def bind_result_def
  fsub_def Let_def

subsection \<open>Evaluating the class\<close>

lemma init_unit_at_origin:
  "Rectangle_init_fl (Finite 0) (Finite 0) (Finite 1) (Finite 0) (Finite 0) = Inr unit_at_origin"
  by (simp add: fl_defs unit_at_origin_def)

lemma init_unit_far_away:
  "Rectangle_init_fl (Finite 9007199254740992) (Finite 0) (Finite 1) (Finite 0) (Finite 0)
   = Inr unit_far_away"
  by (simp add: fl_defs unit_far_away_def)

lemma move_unit:
  "change_x_center_fl unit_at_origin (Finite 9007199254740992) = unit_moved"
  by (simp add: fl_defs unit_at_origin_def unit_moved_def)

lemma init_big_far_away:
  "Rectangle_init_fl (Finite 9007199254740992) (Finite 0) (Finite 9007199254740992) (Finite 0)
     (Finite 0) = Inr big_far_away"
  by (simp add: fl_defs big_far_away_def)

lemma init_nan_alpha:
  "Rectangle_init_fl (Finite 0) (Finite 0) (Finite 1) NaN (Finite 0) = Inr nan_alpha"
  by (simp add: fl_defs nan_alpha_def)

lemma run_to_stale_area:
  "run_fl [Change_x_center_fl (Finite 0), Change_alpha_angle_fl (Finite 0),
           Change_x_center_fl (Finite 9007199254740992)] unit_far_away = Inr stale_area"
  by (simp add: fl_defs unit_far_away_def stale_area_def)

lemma realpha_unit:
  "run_fl [Change_alpha_angle_fl (Finite 0)] unit_at_origin = Inr unit_at_origin"
  by (simp add: fl_defs unit_at_origin_def)

subsection \<open>Sequencing\<close>

lemma bind_result_Inr:
  "bind_result m f = Inr y \<longleftrightarrow> (\<exists>v. m = Inr v \<and> f v = Inr y)"
  by (cases m) (simp_all add: bind_result_def)

lemma run_fl_append: "run_fl (ms @ ns) s = bind_result (run_fl ms s) (run_fl ns)"
  by (induction ms arbitrary: s) (simp_all add: bind_result_def split: sum.splits)

text \<open>A property that the recomputing mutators preserve holds after any run of them.\<close>

lemma run_fl_invariant:
  assumes step: "\<And>m s0 s. recomputes m \<Longrightarrow> P s0 \<Longrightarrow> apply_mutation_fl m s0 = Inr s \<Longrightarrow> P s"
  shows "list_all recomputes ms \<Longrightarrow> P s0 \<Longrightarrow> run_fl ms s0 = Inr s \<Longrightarrow> P s"
proof (induction ms arbitrary: s0)
  case Nil
  then show ?case by simp
next
  case (Cons m ms)
  from Cons.prems(3) obtain s1 where s1: "apply_mutation_fl m s0 = Inr s1" "run_fl ms s1 = Inr s"
    by (auto simp add: bind_result_Inr)
  from Cons.prems(1) have m: "recomputes m" and ms: "list_all recomputes ms" by simp_all
  from step [OF m Cons.prems(2) s1(1)] have "P s1" .
  with Cons.IH ms s1(2) show ?case by blast
qed

subsection \<open>The stored area\<close>

lemma init_area:
  "Rectangle_init_fl xc yc r a b = Inr s \<Longrightarrow> area_calculation_fl s = Inr (area_fl s)"
  by (auto simp add: Rectangle_init_fl_def Let_def bind_result_Inr area_calculation_fl_def)

lemma radius_area:
  "change_radius_fl s0 v = Inr s \<Longrightarrow> area_calculation_fl s = Inr (area_fl s)"
  by (auto simp add: change_radius_fl_def Let_def bind_result_Inr area_calculation_fl_def)

lemma alpha_area:
  "change_alpha_angle_fl s0 v = Inr s \<Longrightarrow> area_calculation_fl s = Inr (area_fl s)"
  by (auto simp add: change_alpha_angle_fl_def Let_def bind_result_Inr area_calculation_fl_def)

lemma beta_area:
  "change_beta_angle_fl s0 v = Inr s \<Longrightarrow> area_calculation_fl s = Inr (area_fl s)"
  by (auto simp add: change_beta_angle_fl_def Let_def bind_result_Inr area_calculation_fl_def)

lemma recomputes_area:
  "recomputes m \<Longrightarrow> apply_mutation_fl m s0 = Inr s \<Longrightarrow> area_calculation_fl s = Inr (area_fl s)"
  by (cases m) (simp_all add: radius_area alpha_area beta_area)

text \<open>
  Claim C1, as the code has it. A constructed object whose last mutator call, if there
  was one, was \<open>change_radius\<close>, \<open>change_alpha_angle\<close> or \<open>change_beta_angle\<close> stores
  as \<open>area\<close> the product of the distances from \<open>p1\<close> to \<open>p2\<close> and from \<open>p2\<close> to
  \<open>p3\<close>, computed from its current vertices. \<open>change_x_center\<close> and
  \<open>change_y_center\<close> do not compute the area: they keep the stored value.
\<close>

theorem area_is_product_when_recomputed:
  assumes "Rectangle_init_fl xc yc r a b = Inr s0"
    and "run_fl ms s0 = Inr s"
    and "ms = [] \<or> recomputes (last ms)"
  shows "(\<exists>d12 d23.
      distance_calculation_fl (p1_fl s) (p2_fl s) = Inr d12
      \<and> distance_calculation_fl (p2_fl s) (p3_fl s) = Inr d23
      \<and> area_fl s = fmul d12 d23)
    \<and> area_fl (change_x_center_fl s v) = area_fl s
    \<and> area_fl (change_y_center_fl s v) = area_fl s"
proof -
  have "area_calculation_fl s = Inr (area_fl s)"
  proof (cases "ms = []")
    case True
    then show ?thesis using assms(1,2) init_area by simp
  next
    case False
    then obtain ms' m where ms: "ms = ms' @ [m]" by (metis rev_exhaust)
    with assms(3) have "recomputes m" by simp
    moreover from assms(2) ms obtain s1 where "apply_mutation_fl m s1 = Inr s"
      by (auto simp add: run_fl_append bind_result_Inr)
    ultimately show ?thesis by (rule recomputes_area)
  qed
  then show ?thesis
    by (auto simp add: area_calculation_fl_def bind_result_Inr change_x_center_fl_def
        change_y_center_fl_def Let_def)
qed

theorem area_is_product_when_recomputed_witness:
  "Rectangle_init_fl (Finite 0) (Finite 0) (Finite 1) (Finite 0) (Finite 0) = Inr unit_at_origin
   \<and> run_fl [Change_alpha_angle_fl (Finite 0)] unit_at_origin = Inr unit_at_origin
   \<and> recomputes (last [Change_alpha_angle_fl (Finite 0)])
   \<and> (\<exists>d12 d23.
      distance_calculation_fl (p1_fl unit_at_origin) (p2_fl unit_at_origin) = Inr d12
      \<and> distance_calculation_fl (p2_fl unit_at_origin) (p3_fl unit_at_origin) = Inr d23
      \<and> area_fl unit_at_origin = fmul d12 d23)
   \<and> area_fl (change_x_center_fl unit_at_origin (Finite 1)) = area_fl unit_at_origin
   \<and> area_fl (change_y_center_fl unit_at_origin (Finite 1)) = area_fl unit_at_origin"
proof -
  have r: "[Change_alpha_angle_fl (Finite 0)] = [] \<or> recomputes (last [Change_alpha_angle_fl (Finite 0)])"
    by simp
  show ?thesis
    using area_is_product_when_recomputed [OF init_unit_at_origin realpha_unit r, of "Finite 1"]
      init_unit_at_origin realpha_unit
    by simp
qed

text \<open>
  Claim C1 as stated fails. \<open>Rectangle(2 ^ 53, 0, 1, 0, 0)\<close> followed by
  \<open>change_x_center(0)\<close>, \<open>change_alpha_angle(0)\<close> and \<open>change_x_center(2 ^ 53)\<close>
  stores the area 1, while the distance from \<open>p1\<close> to \<open>p2\<close> is 0 and the product of
  the two distances is 0: the last translation moved \<open>p1 = (1, 0)\<close> and \<open>p2 = (0, 0)\<close>
  onto the same double.
\<close>

theorem area_stale_after_translation:
  "Rectangle_init_fl (Finite 9007199254740992) (Finite 0) (Finite 1) (Finite 0) (Finite 0)
     = Inr unit_far_away
   \<and> run_fl [Change_x_center_fl (Finite 0), Change_alpha_angle_fl (Finite 0),
             Change_x_center_fl (Finite 9007199254740992)] unit_far_away = Inr stale_area
   \<and> area_fl stale_area = Finite 1
   \<and> distance_calculation_fl (p1_fl stale_area) (p2_fl stale_area) = Inr (Finite 0)
   \<and> distance_calculation_fl (p2_fl stale_area) (p3_fl stale_area) = Inr (Finite 1)
   \<and> fmul (Finite 0) (Finite 1) = Finite 0
   \<and> area_calculation_fl stale_area = Inr (Finite 0)"
proof -
  have "area_fl stale_area = Finite 1"
    and "distance_calculation_fl (p1_fl stale_area) (p2_fl stale_area) = Inr (Finite 0)"
    and "distance_calculation_fl (p2_fl stale_area) (p3_fl stale_area) = Inr (Finite 1)"
    and "fmul (Finite 0) (Finite 1) = Finite 0"
    and "area_calculation_fl stale_area = Inr (Finite 0)"
    by (simp_all add: fl_defs stale_area_def)
  with init_unit_far_away run_to_stale_area show ?thesis by blast
qed

subsection \<open>Consistent objects\<close>

lemma fabs_fabs [simp]: "fabs (fabs a) = fabs a"
  by (cases a) simp_all

lemma vertex_calculation_fl_cong:
  "radius_fl s = radius_fl t \<Longrightarrow> x_center_fl s = x_center_fl t \<Longrightarrow> y_center_fl s = y_center_fl t
   \<Longrightarrow> vertex_calculation_fl s a = vertex_calculation_fl t a"
  by (simp add: vertex_calculation_fl_def)

lemma area_calculation_fl_cong:
  "p1_fl s = p1_fl t \<Longrightarrow> p2_fl s = p2_fl t \<Longrightarrow> p3_fl s = p3_fl t
   \<Longrightarrow> area_calculation_fl s = area_calculation_fl t"
  by (simp add: area_calculation_fl_def)

text \<open>The constructor returns a consistent object holding its arguments.\<close>

lemma init_Inr_D:
  assumes "Rectangle_init_fl xc yc r a b = Inr s"
  shows "x_center_fl s = xc" "y_center_fl s = yc" "radius_fl s = fabs r"
    "alpha_angle_fl s = a" "beta_angle_fl s = b" "consistent s"
proof -
  from assms obtain v1 v2 ar where
    s: "s = \<lparr> x_center_fl = xc, y_center_fl = yc, radius_fl = fabs r, alpha_angle_fl = a,
            beta_angle_fl = b, p1_fl = v1, p2_fl = v2,
            p3_fl = (fsub (fmul (Finite 2) xc) (fst v1), fsub (fmul (Finite 2) yc) (snd v1)),
            p4_fl = (fsub (fmul (Finite 2) xc) (fst v2), fsub (fmul (Finite 2) yc) (snd v2)),
            area_fl = ar \<rparr>"
    and v1: "vertex_calculation_fl s a = Inr v1"
    and v2: "vertex_calculation_fl s b = Inr v2"
    and ar: "area_calculation_fl s = Inr ar"
    unfolding Rectangle_init_fl_def Let_def bind_result_Inr
    by (auto simp add: opposite_vertex_fl_def vertex_calculation_fl_def area_calculation_fl_def)
  show "x_center_fl s = xc" "y_center_fl s = yc" "radius_fl s = fabs r"
    "alpha_angle_fl s = a" "beta_angle_fl s = b"
    by (simp_all add: s)
  have f: "p1_fl s = v1" "p2_fl s = v2" "area_fl s = ar" "radius_fl s = fabs r"
    "alpha_angle_fl s = a" "beta_angle_fl s = b"
    "p3_fl s = opposite_vertex_fl s v1" "p4_fl s = opposite_vertex_fl s v2"
    by (simp_all add: s opposite_vertex_fl_def)
  show "consistent s"
    unfolding consistent_def using v1 v2 ar by (simp add: f)
qed

text \<open>A consistent object is what the constructor returns on the object's parameters.\<close>

lemma consistent_rebuilt:
  assumes "consistent s"
  shows "Rectangle_init_fl (x_center_fl s) (y_center_fl s) (radius_fl s) (alpha_angle_fl s)
           (beta_angle_fl s) = Inr s"
proof -
  from assms have r: "fabs (radius_fl s) = radius_fl s"
    and v1: "vertex_calculation_fl s (alpha_angle_fl s) = Inr (p1_fl s)"
    and v2: "vertex_calculation_fl s (beta_angle_fl s) = Inr (p2_fl s)"
    and o: "p3_fl s = opposite_vertex_fl s (p1_fl s)" "p4_fl s = opposite_vertex_fl s (p2_fl s)"
    and ar: "area_calculation_fl s = Inr (area_fl s)"
    by (simp_all add: consistent_def)
  let ?s0 = "\<lparr> x_center_fl = x_center_fl s, y_center_fl = y_center_fl s,
      radius_fl = fabs (radius_fl s), alpha_angle_fl = alpha_angle_fl s,
      beta_angle_fl = beta_angle_fl s,
      p1_fl = (Finite 0, Finite 0), p2_fl = (Finite 0, Finite 0),
      p3_fl = (Finite 0, Finite 0), p4_fl = (Finite 0, Finite 0), area_fl = Finite 0 \<rparr>"
  have a: "vertex_calculation_fl ?s0 (alpha_angle_fl s) = Inr (p1_fl s)"
    using v1 vertex_calculation_fl_cong [of ?s0 s] by (simp add: r)
  have b: "vertex_calculation_fl (?s0\<lparr>p1_fl := p1_fl s\<rparr>) (beta_angle_fl s) = Inr (p2_fl s)"
    using v2 vertex_calculation_fl_cong [of "?s0\<lparr>p1_fl := p1_fl s\<rparr>" s] by (simp add: r)
  let ?s4 = "?s0\<lparr>p1_fl := p1_fl s, p2_fl := p2_fl s, p3_fl := p3_fl s, p4_fl := p4_fl s\<rparr>"
  have c: "area_calculation_fl ?s4 = Inr (area_fl s)"
    using ar area_calculation_fl_cong [of ?s4 s] by simp
  have d: "opposite_vertex_fl (?s0\<lparr>p1_fl := p1_fl s, p2_fl := p2_fl s\<rparr>) (p1_fl s) = p3_fl s"
    using o(1) by (simp add: opposite_vertex_fl_def)
  have e: "opposite_vertex_fl (?s0\<lparr>p1_fl := p1_fl s, p2_fl := p2_fl s, p3_fl := p3_fl s\<rparr>)
      (p2_fl s) = p4_fl s"
    using o(2) by (simp add: opposite_vertex_fl_def)
  have "?s4\<lparr>area_fl := area_fl s\<rparr> = s" by (simp add: r)
  with a b c d e show ?thesis
    by (simp add: Rectangle_init_fl_def Let_def bind_result_def)
qed

text \<open>\<open>change_radius\<close> runs the constructor's statements on the object's centre and
  angles.\<close>

lemma change_radius_is_init:
  "change_radius_fl s v =
     Rectangle_init_fl (x_center_fl s) (y_center_fl s) v (alpha_angle_fl s) (beta_angle_fl s)"
  by (simp add: Rectangle_init_fl_def change_radius_fl_def Let_def
      vertex_calculation_fl_def opposite_vertex_fl_def area_calculation_fl_def
      bind_result_def split: sum.splits)

lemma radius_consistent: "change_radius_fl s0 v = Inr s \<Longrightarrow> consistent s"
  using init_Inr_D(6) by (simp add: change_radius_is_init)

lemma alpha_consistent:
  assumes "consistent s0" "change_alpha_angle_fl s0 v = Inr s"
  shows "consistent s"
proof -
  from assms(2) obtain v1 ar where
    s: "s = s0\<lparr>alpha_angle_fl := v, p1_fl := v1,
              p3_fl := opposite_vertex_fl s0 v1, area_fl := ar\<rparr>"
    and v1: "vertex_calculation_fl s0 v = Inr v1"
    and ar: "area_calculation_fl s = Inr ar"
    unfolding change_alpha_angle_fl_def Let_def bind_result_Inr
    by (auto simp add: opposite_vertex_fl_def vertex_calculation_fl_def area_calculation_fl_def)
  have f: "radius_fl s = radius_fl s0" "x_center_fl s = x_center_fl s0"
    "y_center_fl s = y_center_fl s0" "alpha_angle_fl s = v" "beta_angle_fl s = beta_angle_fl s0"
    "p1_fl s = v1" "p2_fl s = p2_fl s0" "p3_fl s = opposite_vertex_fl s0 v1"
    "p4_fl s = p4_fl s0" "area_fl s = ar"
    by (simp_all add: s)
  have vc: "vertex_calculation_fl s = vertex_calculation_fl s0"
    by (rule ext) (simp add: vertex_calculation_fl_def f)
  have ov: "opposite_vertex_fl s = opposite_vertex_fl s0"
    by (rule ext) (simp add: opposite_vertex_fl_def f)
  from assms(1) show ?thesis
    unfolding consistent_def vc ov using v1 ar by (simp add: f)
qed

lemma beta_consistent:
  assumes "consistent s0" "change_beta_angle_fl s0 v = Inr s"
  shows "consistent s"
proof -
  from assms(2) obtain v2 ar where
    s: "s = s0\<lparr>beta_angle_fl := v, p2_fl := v2,
              p4_fl := opposite_vertex_fl s0 v2, area_fl := ar\<rparr>"
    and v2: "vertex_calculation_fl s0 v = Inr v2"
    and ar: "area_calculation_fl s = Inr ar"
    unfolding change_beta_angle_fl_def Let_def bind_result_Inr
    by (auto simp add: opposite_vertex_fl_def vertex_calculation_fl_def area_calculation_fl_def)
  have f: "radius_fl s = radius_fl s0" "x_center_fl s = x_center_fl s0"
    "y_center_fl s = y_center_fl s0" "alpha_angle_fl s = alpha_angle_fl s0" "beta_angle_fl s = v"
    "p1_fl s = p1_fl s0" "p2_fl s = v2" "p3_fl s = p3_fl s0"
    "p4_fl s = opposite_vertex_fl s0 v2" "area_fl s = ar"
    by (simp_all add: s)
  have vc: "vertex_calculation_fl s = vertex_calculation_fl s0"
    by (rule ext) (simp add: vertex_calculation_fl_def f)
  have ov: "opposite_vertex_fl s = opposite_vertex_fl s0"
    by (rule ext) (simp add: opposite_vertex_fl_def f)
  from assms(1) show ?thesis
    unfolding consistent_def vc ov using v2 ar by (simp add: f)
qed

lemma recomputes_consistent:
  "recomputes m \<Longrightarrow> consistent s0 \<Longrightarrow> apply_mutation_fl m s0 = Inr s \<Longrightarrow> consistent s"
  by (cases m) (auto intro: radius_consistent alpha_consistent beta_consistent)

lemma run_consistent:
  assumes "Rectangle_init_fl xc yc r a b = Inr s0" "run_fl ms s0 = Inr s"
    "list_all recomputes ms"
  shows "consistent s"
proof (rule run_fl_invariant [where P = consistent])
  show "consistent s'" if "recomputes m" "consistent s1" "apply_mutation_fl m s1 = Inr s'"
    for m s1 s'
    using that by (rule recomputes_consistent)
  show "list_all recomputes ms" by (rule assms(3))
  show "consistent s0" using assms(1) by (rule init_Inr_D(6))
  show "run_fl ms s0 = Inr s" by (rule assms(2))
qed

text \<open>
  Claim C2, as the code has it. In an object that was constructed and then changed by
  \<open>change_radius\<close>, \<open>change_alpha_angle\<close> and \<open>change_beta_angle\<close> only, in any
  number and order, \<open>p3 = (2 * x_center - p1.x, 2 * y_center - p1.y)\<close> and
  \<open>p4 = (2 * x_center - p2.x, 2 * y_center - p2.y)\<close>, each side computed with the
  code's own operations.
\<close>

theorem opposite_vertices_without_translation:
  assumes "Rectangle_init_fl xc yc r a b = Inr s0"
    and "run_fl ms s0 = Inr s"
    and "list_all recomputes ms"
  shows "p3_fl s = (fsub (fmul (Finite 2) (x_center_fl s)) (fst (p1_fl s)),
                    fsub (fmul (Finite 2) (y_center_fl s)) (snd (p1_fl s)))
       \<and> p4_fl s = (fsub (fmul (Finite 2) (x_center_fl s)) (fst (p2_fl s)),
                    fsub (fmul (Finite 2) (y_center_fl s)) (snd (p2_fl s)))"
  using run_consistent [OF assms] by (simp add: consistent_def opposite_vertex_fl_def)

theorem opposite_vertices_without_translation_witness:
  "Rectangle_init_fl (Finite 0) (Finite 0) (Finite 1) (Finite 0) (Finite 0) = Inr unit_at_origin
   \<and> run_fl [Change_alpha_angle_fl (Finite 0)] unit_at_origin = Inr unit_at_origin
   \<and> list_all recomputes [Change_alpha_angle_fl (Finite 0)]
   \<and> p3_fl unit_at_origin =
       (fsub (fmul (Finite 2) (x_center_fl unit_at_origin)) (fst (p1_fl unit_at_origin)),
        fsub (fmul (Finite 2) (y_center_fl unit_at_origin)) (snd (p1_fl unit_at_origin)))
   \<and> p4_fl unit_at_origin =
       (fsub (fmul (Finite 2) (x_center_fl unit_at_origin)) (fst (p2_fl unit_at_origin)),
        fsub (fmul (Finite 2) (y_center_fl unit_at_origin)) (snd (p2_fl unit_at_origin)))"
proof -
  have r: "list_all recomputes [Change_alpha_angle_fl (Finite 0)]" by simp
  show ?thesis
    using opposite_vertices_without_translation [OF init_unit_at_origin realpha_unit r]
      init_unit_at_origin realpha_unit r
    by simp
qed

text \<open>
  Claim C2 as stated fails. After \<open>Rectangle(0, 0, 1, 0, 0)\<close> and
  \<open>change_x_center(2 ^ 53)\<close> the vertex \<open>p1 = (1, 0)\<close> has moved to
  \<open>(2 ^ 53, 0)\<close>, the sum \<open>1 + 2 ^ 53\<close> being rounded, and \<open>p3 = (- 1, 0)\<close> to
  \<open>(2 ^ 53 - 1, 0)\<close>, while \<open>2 * x_center - p1.x\<close> is \<open>2 ^ 53\<close>.
\<close>

theorem opposite_vertex_broken_by_translation:
  "Rectangle_init_fl (Finite 0) (Finite 0) (Finite 1) (Finite 0) (Finite 0) = Inr unit_at_origin
   \<and> change_x_center_fl unit_at_origin (Finite 9007199254740992) = unit_moved
   \<and> p3_fl unit_moved = (Finite 9007199254740991, Finite 0)
   \<and> (fsub (fmul (Finite 2) (x_center_fl unit_moved)) (fst (p1_fl unit_moved)),
       fsub (fmul (Finite 2) (y_center_fl unit_moved)) (snd (p1_fl unit_moved)))
      = (Finite 9007199254740992, Finite 0)"
  using init_unit_at_origin move_unit by (simp add: unit_moved_def fsub_def)

text \<open>
  Claim C9, as the code has it. \<open>change_radius\<close> on any object returns what the
  constructor returns on the object's centre, the new radius and the object's angles.
  An object that was constructed and then changed by \<open>change_radius\<close>,
  \<open>change_alpha_angle\<close> and \<open>change_beta_angle\<close> only equals, in all ten
  attributes, the object that the constructor builds from the five parameters it holds.
\<close>

theorem recomputing_mutators_equal_reconstruction:
  assumes "Rectangle_init_fl xc yc r a b = Inr s0"
    and "run_fl ms s0 = Inr s"
    and "list_all recomputes ms"
  shows "Rectangle_init_fl (x_center_fl s) (y_center_fl s) (radius_fl s) (alpha_angle_fl s)
           (beta_angle_fl s) = Inr s
       \<and> change_radius_fl t v =
           Rectangle_init_fl (x_center_fl t) (y_center_fl t) v (alpha_angle_fl t) (beta_angle_fl t)"
  using consistent_rebuilt [OF run_consistent [OF assms]] change_radius_is_init by simp

theorem recomputing_mutators_equal_reconstruction_witness:
  "Rectangle_init_fl (Finite 0) (Finite 0) (Finite 1) (Finite 0) (Finite 0) = Inr unit_at_origin
   \<and> run_fl [Change_alpha_angle_fl (Finite 0)] unit_at_origin = Inr unit_at_origin
   \<and> list_all recomputes [Change_alpha_angle_fl (Finite 0)]
   \<and> Rectangle_init_fl (x_center_fl unit_at_origin) (y_center_fl unit_at_origin)
       (radius_fl unit_at_origin) (alpha_angle_fl unit_at_origin) (beta_angle_fl unit_at_origin)
       = Inr unit_at_origin
   \<and> change_radius_fl unit_moved (Finite 1) =
       Rectangle_init_fl (x_center_fl unit_moved) (y_center_fl unit_moved) (Finite 1)
         (alpha_angle_fl unit_moved) (beta_angle_fl unit_moved)"
proof -
  have r: "list_all recomputes [Change_alpha_angle_fl (Finite 0)]" by simp
  show ?thesis
    using recomputing_mutators_equal_reconstruction
      [OF init_unit_at_origin realpha_unit r, of unit_moved "Finite 1"]
      init_unit_at_origin realpha_unit r
    by simp
qed

text \<open>
  Claim C9 as stated fails. \<open>Rectangle(0, 0, 1, 0, 0)\<close> after
  \<open>change_x_center(2 ^ 53)\<close> holds the parameters \<open>(2 ^ 53, 0, 1, 0, 0)\<close> and
  \<open>p3 = (2 ^ 53 - 1, 0)\<close>; the object constructed from these parameters has
  \<open>p3 = (2 ^ 53, 0)\<close>.
\<close>

theorem translation_differs_from_reconstruction:
  "Rectangle_init_fl (Finite 0) (Finite 0) (Finite 1) (Finite 0) (Finite 0) = Inr unit_at_origin
   \<and> change_x_center_fl unit_at_origin (Finite 9007199254740992) = unit_moved
   \<and> Rectangle_init_fl (x_center_fl unit_moved) (y_center_fl unit_moved) (radius_fl unit_moved)
       (alpha_angle_fl unit_moved) (beta_angle_fl unit_moved) = Inr unit_far_away
   \<and> unit_moved \<noteq> unit_far_away
   \<and> p3_fl unit_moved = (Finite 9007199254740991, Finite 0)
   \<and> p3_fl unit_far_away = (Finite 9007199254740992, Finite 0)"
  using init_unit_at_origin move_unit init_unit_far_away
  by (simp add: unit_moved_def unit_far_away_def)

subsection \<open>Translation\<close>

text \<open>
  Claim C5, as the code has it. \<open>change_x_center(x_center + d)\<close> followed by
  \<open>change_y_center(y_center + d)\<close> adds \<open>dx = (x_center + d) - x_center\<close> to the
  first coordinate of each vertex and \<open>dy = (y_center + d) - y_center\<close> to the second,
  every sum and difference rounded, and leaves \<open>radius\<close>, \<open>alpha_angle\<close>,
  \<open>beta_angle\<close> and \<open>area\<close> as they were.
\<close>

theorem translation_adds_rounded_deltas:
  "let dx = fsub (fadd (x_center_fl s) d) (x_center_fl s);
       dy = fsub (fadd (y_center_fl s) d) (y_center_fl s);
       s' = change_y_center_fl (change_x_center_fl s (fadd (x_center_fl s) d))
              (fadd (y_center_fl s) d)
   in p1_fl s' = (fadd (fst (p1_fl s)) dx, fadd (snd (p1_fl s)) dy)
    \<and> p2_fl s' = (fadd (fst (p2_fl s)) dx, fadd (snd (p2_fl s)) dy)
    \<and> p3_fl s' = (fadd (fst (p3_fl s)) dx, fadd (snd (p3_fl s)) dy)
    \<and> p4_fl s' = (fadd (fst (p4_fl s)) dx, fadd (snd (p4_fl s)) dy)
    \<and> x_center_fl s' = fadd (x_center_fl s) d
    \<and> y_center_fl s' = fadd (y_center_fl s) d
    \<and> radius_fl s' = radius_fl s
    \<and> alpha_angle_fl s' = alpha_angle_fl s
    \<and> beta_angle_fl s' = beta_angle_fl s
    \<and> area_fl s' = area_fl s"
  by (simp add: change_x_center_fl_def change_y_center_fl_def Let_def)

text \<open>
  Claim C5 as stated fails. \<open>Rectangle(2 ^ 53, 0, 2 ^ 53, 0, 0)\<close> has
  \<open>p3 = (0, 0)\<close>. With \<open>d = 1\<close> the new centre \<open>2 ^ 53 + 1\<close> rounds to \<open>2 ^ 53\<close>,
  so the first translation moves nothing, and \<open>p3\<close> ends at \<open>(0, 1)\<close>, not at
  \<open>(1, 1)\<close>.
\<close>

theorem translation_not_by_d:
  "Rectangle_init_fl (Finite 9007199254740992) (Finite 0) (Finite 9007199254740992) (Finite 0)
     (Finite 0) = Inr big_far_away
   \<and> p3_fl big_far_away = (Finite 0, Finite 0)
   \<and> p3_fl (change_y_center_fl
        (change_x_center_fl big_far_away (fadd (x_center_fl big_far_away) (Finite 1)))
        (fadd (y_center_fl big_far_away) (Finite 1))) = (Finite 0, Finite 1)
   \<and> (fadd (fst (p3_fl big_far_away)) (Finite 1), fadd (snd (p3_fl big_far_away)) (Finite 1))
      = (Finite 1, Finite 1)"
  using init_big_far_away by (simp add: fl_defs big_far_away_def)

subsection \<open>Equality on floats\<close>

lemma feq_sym: "feq a b = feq b a"
  by (cases a; cases b) auto

lemma feq_refl: "a \<noteq> NaN \<Longrightarrow> feq a a"
  by (cases a) simp_all

lemma feq_NaN_right [simp]: "\<not> feq a NaN"
  by (cases a) simp_all

text \<open>
  Claim C10, as the code has it. \<open>a == b\<close> holds exactly when \<open>b == a\<close> does. A
  rectangle none of whose five parameters is NaN equals itself, and a rectangle whose
  radius or one of whose angles is NaN does not.
\<close>

theorem eq_symmetric_and_reflexive_without_nan:
  "Rectangle_eq_fl s t = Rectangle_eq_fl t s
   \<and> (x_center_fl u \<noteq> NaN \<and> y_center_fl u \<noteq> NaN \<and> radius_fl u \<noteq> NaN
        \<and> alpha_angle_fl u \<noteq> NaN \<and> beta_angle_fl u \<noteq> NaN
      \<longrightarrow> Rectangle_eq_fl u u)
   \<and> (radius_fl n = NaN \<or> alpha_angle_fl n = NaN \<or> beta_angle_fl n = NaN
      \<longrightarrow> \<not> Rectangle_eq_fl n n)"
proof -
  have "Rectangle_eq_fl s t = Rectangle_eq_fl t s"
    unfolding Rectangle_eq_fl_def
    by (simp only: feq_sym [of _ "x_center_fl s"] feq_sym [of _ "y_center_fl s"]
        feq_sym [of _ "radius_fl s"] feq_sym [of _ "alpha_angle_fl s"]
        feq_sym [of _ "beta_angle_fl s"]) blast
  then show ?thesis
    by (auto simp add: Rectangle_eq_fl_def feq_refl)
qed

theorem eq_symmetric_and_reflexive_without_nan_witness:
  "Rectangle_eq_fl unit_at_origin unit_moved = Rectangle_eq_fl unit_moved unit_at_origin
   \<and> x_center_fl unit_at_origin \<noteq> NaN \<and> y_center_fl unit_at_origin \<noteq> NaN
   \<and> radius_fl unit_at_origin \<noteq> NaN \<and> alpha_angle_fl unit_at_origin \<noteq> NaN
   \<and> beta_angle_fl unit_at_origin \<noteq> NaN
   \<and> Rectangle_eq_fl unit_at_origin unit_at_origin
   \<and> alpha_angle_fl nan_alpha = NaN
   \<and> \<not> Rectangle_eq_fl nan_alpha nan_alpha"
  using eq_symmetric_and_reflexive_without_nan [of unit_at_origin unit_moved unit_at_origin nan_alpha]
  by (simp add: unit_at_origin_def nan_alpha_def)

text \<open>
  Claim C10 as stated fails. \<open>Rectangle(0, 0, 1, nan, 0)\<close> is constructed without an
  exception, \<open>math.cos\<close> and \<open>math.sin\<close> returning NaN at NaN, and does not equal
  itself.
\<close>

theorem nan_rectangle_not_equal_to_itself:
  "Rectangle_init_fl (Finite 0) (Finite 0) (Finite 1) NaN (Finite 0) = Inr nan_alpha
   \<and> \<not> Rectangle_eq_fl nan_alpha nan_alpha"
  using init_nan_alpha by (simp add: Rectangle_eq_fl_def nan_alpha_def)

subsection \<open>Distance of the vertices from the centre\<close>


end
